theory Spec2Isabelle
  imports Main "HOL-Library.Sublist"
begin

section \<open>The TSK worker task (src/tasks.py)\<close>

text \<open>
  The task \<open>command\<close> of \<open>tasks.py\<close> walks over the resolved input files, picks for each
  one the first requested artifact type whose identifier occurs in the lowercased display
  name, starts the extraction command registered for that type with its standard output
  sent to a fresh output file, and finally builds a task result, or raises when no output
  file was produced.

  Python strings are modelled as \<open>string\<close>, dictionaries with optional keys as records of
  options or as maps, exceptions as the left summand of a sum type. Opening the destination
  and starting the process are effects of the operating system; the model records every
  started command together with its destination and takes both calls to succeed when
  their arguments are well-typed.
\<close>

subsection \<open>Strings\<close>

text \<open>\<open>str.lower\<close>, on the letters \<open>A\<close> to \<open>Z\<close>; every other character is kept.\<close>

definition lower_char :: "char \<Rightarrow> char" where
  "lower_char c =
     (case map_of (zip ''ABCDEFGHIJKLMNOPQRSTUVWXYZ'' ''abcdefghijklmnopqrstuvwxyz'') c of
        None \<Rightarrow> c
      | Some d \<Rightarrow> d)"

definition lower :: "string \<Rightarrow> string" where
  "lower s = map lower_char s"

text \<open>\<open>sep.join(parts)\<close>.\<close>

fun join :: "string \<Rightarrow> string list \<Rightarrow> string" where
  "join sep [] = []"
| "join sep [x] = x"
| "join sep (x # y # ys) = x @ sep @ join sep (y # ys)"

subsection \<open>Data\<close>

text \<open>
  An input file is a dictionary read with \<open>get\<close>: a key may be absent (\<open>None\<close>).
\<close>

record input_file =
  display_name :: "string option"
  path :: "string option"

record output_file =
  of_path :: string
  of_display_name :: "string option"
  of_extension :: string
  of_data_type :: string

record task_result =
  tr_output_files :: "output_file list"
  tr_workflow_id :: "string option"
  tr_command :: string
  tr_meta :: "(string \<times> string) list"

datatype error =
    RuntimeError string
  | KeyError string
  | TypeError
  | AttributeError

text \<open>The loop's state: the output files appended so far and the processes started so far
  (argument vector and the path that receives the standard output).\<close>

record run_state =
  output_files :: "output_file list"
  spawned :: "(string list \<times> string) list"

definition init_state :: run_state where
  "init_state = \<lparr>output_files = [], spawned = []\<rparr>"

subsection \<open>External collaborators\<close>

text \<open>
  Modelled from the spec: \<open>create_output_file\<close> of the worker library, which is not part
  of this repository. It returns a descriptor holding the display name, extension and data
  type it was given, and a path inside the output directory. The base name of the path is
  drawn from a supply of names, \<open>fresh k\<close> for the \<open>k\<close>-th file of a run.
\<close>

definition create_output_file ::
  "(nat \<Rightarrow> string) \<Rightarrow> nat \<Rightarrow> string \<Rightarrow> string option \<Rightarrow> string \<Rightarrow> string \<Rightarrow> output_file" where
  "create_output_file fresh k output_path dn extension data_type =
     \<lparr>of_path = output_path @ ''/'' @ fresh k @ extension,
      of_display_name = dn,
      of_extension = extension,
      of_data_type = data_type\<rparr>"

text \<open>
  Modelled from the spec: \<open>create_task_result\<close> of the worker library, which is not part of
  this repository. The result carries the four arguments it was given.
\<close>

definition create_task_result ::
  "output_file list \<Rightarrow> string option \<Rightarrow> string \<Rightarrow> (string \<times> string) list \<Rightarrow> task_result" where
  "create_task_result ofs workflow_id cmd meta =
     \<lparr>tr_output_files = ofs, tr_workflow_id = workflow_id, tr_command = cmd, tr_meta = meta\<rparr>"

text \<open>
  Modelled from the spec: \<open>get_input_files\<close> of the worker library, which is not part of
  this repository. The files of the previous task's result, when there is one, replace
  the files passed directly.
\<close>

definition get_input_files :: "input_file list option \<Rightarrow> input_file list \<Rightarrow> input_file list" where
  "get_input_files pipe_result input_files =
     (case pipe_result of None \<Rightarrow> input_files | Some fs \<Rightarrow> fs)"

text \<open>A supply of names for concrete runs: \<open>out0\<close>, \<open>out00\<close>, ...\<close>

definition name_supply :: "nat \<Rightarrow> string" where
  "name_supply k = ''out'' @ replicate (Suc k) (CHR ''0'')"

subsection \<open>The task\<close>

text \<open>The dictionary \<open>commands\<close> (lines 75 to 81).\<close>

definition commands :: "(string \<times> string list) list" where
  "commands =
     [(''mft'', [''fls'', ''-r'']),
      (''journal'', [''icat'']),
      (''boot_log'', [''icat'']),
      (''logfile'', [''icat'']),
      (''io3'', [''icat''])]"

text \<open>Line 73: \<open>task_config.get("artifact_types", [])\<close>.\<close>

definition get_artifact_types :: "(string \<rightharpoonup> string list) \<Rightarrow> string list" where
  "get_artifact_types task_config =
     (case task_config ''artifact_types'' of None \<Rightarrow> [] | Some ts \<Rightarrow> ts)"

text \<open>Line 84: \<open>input_file.get("display_name", "").lower()\<close>.\<close>

definition file_name :: "input_file \<Rightarrow> string" where
  "file_name input_file =
     lower (case display_name input_file of None \<Rightarrow> [] | Some n \<Rightarrow> n)"

text \<open>Line 85: \<open>next((t for t in artifact_types if t in file_name), None)\<close>.\<close>

definition matched_type :: "string \<Rightarrow> string list \<Rightarrow> string option" where
  "matched_type fname artifact_types = find (\<lambda>t. sublist t fname) artifact_types"

text \<open>
  Lines 84 to 100, the body of the loop. The guard of line 87 asks for a matched type
  that is truthy (not the empty string) and a key of \<open>commands\<close>. An absent \<open>path\<close> puts
  \<open>None\<close> into the argument vector, which \<open>Popen\<close> refuses with a \<open>TypeError\<close>.
\<close>

definition loop_body ::
  "(nat \<Rightarrow> string) \<Rightarrow> string \<Rightarrow> string list \<Rightarrow> input_file \<Rightarrow> run_state \<Rightarrow> error + run_state" where
  "loop_body fresh output_path artifact_types input_file s =
     (case matched_type (file_name input_file) artifact_types of
        None \<Rightarrow> Inr s
      | Some t \<Rightarrow>
          if t = [] then Inr s
          else
            (case map_of commands t of
               None \<Rightarrow> Inr s
             | Some template \<Rightarrow>
                 (let output_file =
                        create_output_file fresh (length (output_files s)) output_path
                          (display_name input_file) ''.txt'' ''filesystem_artifact''
                  in case path input_file of
                       None \<Rightarrow> Inl TypeError
                     | Some p \<Rightarrow>
                         Inr \<lparr>output_files = output_files s @ [output_file],
                              spawned = spawned s @ [(template @ [p], of_path output_file)]\<rparr>)))"

text \<open>Lines 83 to 100, the loop; an exception in one iteration ends the run.\<close>

fun run_loop ::
  "(nat \<Rightarrow> string) \<Rightarrow> string \<Rightarrow> string list \<Rightarrow> input_file list \<Rightarrow> run_state \<Rightarrow> error + run_state" where
  "run_loop fresh output_path artifact_types [] s = Inr s"
| "run_loop fresh output_path artifact_types (f # fs) s =
     (case loop_body fresh output_path artifact_types f s of
        Inl e \<Rightarrow> Inl e
      | Inr s' \<Rightarrow> run_loop fresh output_path artifact_types fs s')"

text \<open>
  Line 107, the list comprehension over \<open>zip(artifact_types, output_files)\<close>:
  \<open>" ".join(commands[t] + [f.get('path')])\<close>, where \<open>commands[t]\<close> raises \<open>KeyError\<close>
  for a missing key.
\<close>

fun command_lines :: "(string \<times> output_file) list \<Rightarrow> error + string list" where
  "command_lines [] = Inr []"
| "command_lines ((t, f) # rest) =
     (case map_of commands t of
        None \<Rightarrow> Inl (KeyError t)
      | Some template \<Rightarrow>
          (case command_lines rest of
             Inl e \<Rightarrow> Inl e
           | Inr ls \<Rightarrow> Inr (join '' '' (template @ [of_path f]) # ls)))"

definition no_artifacts :: error where
  "no_artifacts = RuntimeError ''No valid file system artifacts processed.''"

text \<open>
  The task function. \<open>task_config\<close> defaults to \<open>None\<close>, on which \<open>.get\<close> raises
  \<open>AttributeError\<close>; \<open>input_files or []\<close> turns an absent list into the empty one.
\<close>

definition command ::
  "(nat \<Rightarrow> string) \<Rightarrow> input_file list option \<Rightarrow> input_file list option \<Rightarrow> string \<Rightarrow>
   string option \<Rightarrow> (string \<rightharpoonup> string list) option \<Rightarrow> error + task_result" where
  "command fresh pipe_result input_files output_path workflow_id task_config =
     (let ins = get_input_files pipe_result
                  (case input_files of None \<Rightarrow> [] | Some fs \<Rightarrow> fs)
      in case task_config of
           None \<Rightarrow> Inl AttributeError
         | Some cfg \<Rightarrow>
             (let artifact_types = get_artifact_types cfg
              in case run_loop fresh output_path artifact_types ins init_state of
                   Inl e \<Rightarrow> Inl e
                 | Inr s \<Rightarrow>
                     if output_files s = [] then Inl no_artifacts
                     else
                       (case command_lines (zip artifact_types (output_files s)) of
                          Inl e \<Rightarrow> Inl e
                        | Inr ls \<Rightarrow>
                            Inr (create_task_result (output_files s) workflow_id
                                   (join ''; '' ls) []))))"

subsection \<open>Derived notions\<close>

text \<open>
  The guard of line 87 as a predicate on the input file: the loop acts on the file when
  the matched type is a non-empty string and a key of \<open>commands\<close>.
\<close>

definition dispatched :: "string list \<Rightarrow> input_file \<Rightarrow> bool" where
  "dispatched artifact_types input_file =
     (case matched_type (file_name input_file) artifact_types of
        None \<Rightarrow> False
      | Some t \<Rightarrow> t \<noteq> [] \<and> map_of commands t \<noteq> None)"

text \<open>The output files created for a list of files the loop acts on, the first of them
  being the \<open>k\<close>-th of the run.\<close>

fun produce :: "(nat \<Rightarrow> string) \<Rightarrow> nat \<Rightarrow> string \<Rightarrow> input_file list \<Rightarrow> output_file list" where
  "produce fresh k output_path [] = []"
| "produce fresh k output_path (f # fs) =
     create_output_file fresh k output_path (display_name f) ''.txt'' ''filesystem_artifact''
       # produce fresh (Suc k) output_path fs"

section \<open>Properties\<close>

subsection \<open>The loop\<close>

lemma loop_body_skip:
  "\<not> dispatched ats f \<Longrightarrow> loop_body fresh out ats f s = Inr s"
  by (auto simp: dispatched_def loop_body_def split: option.splits)

lemma loop_body_take:
  assumes "dispatched ats f"
  shows "loop_body fresh out ats f s =
     (case path f of
        None \<Rightarrow> Inl TypeError
      | Some p \<Rightarrow>
          Inr \<lparr>output_files = output_files s @ produce fresh (length (output_files s)) out [f],
               spawned = spawned s @
                 [(the (map_of commands (the (matched_type (file_name f) ats))) @ [p],
                   of_path (create_output_file fresh (length (output_files s)) out
                     (display_name f) ''.txt'' ''filesystem_artifact''))]\<rparr>)"
  using assms
  by (auto simp: dispatched_def loop_body_def Let_def split: option.splits)

lemma loop_body_error: "loop_body fresh out ats f s = Inl e \<Longrightarrow> e = TypeError"
  by (auto simp: loop_body_def Let_def split: option.splits if_splits)

lemma run_loop_error: "run_loop fresh out ats fs s = Inl e \<Longrightarrow> e = TypeError"
  by (induction fs arbitrary: s) (auto split: sum.splits dest: loop_body_error)

lemma produce_append:
  "produce fresh k out (xs @ ys) = produce fresh k out xs @ produce fresh (k + length xs) out ys"
  by (induction xs arbitrary: k) auto

lemma length_produce [simp]: "length (produce fresh k out fs) = length fs"
  by (induction fs arbitrary: k) auto

lemma nth_produce:
  "i < length fs \<Longrightarrow>
   produce fresh k out fs ! i =
     create_output_file fresh (k + i) out (display_name (fs ! i)) ''.txt'' ''filesystem_artifact''"
proof (induction fs arbitrary: k i)
  case Nil
  then show ?case by simp
next
  case (Cons f fs)
  then show ?case by (cases i) auto
qed

lemma run_loop_outputs:
  "run_loop fresh out ats fs s = Inr s' \<Longrightarrow>
   output_files s' =
     output_files s @ produce fresh (length (output_files s)) out (filter (dispatched ats) fs)"
proof (induction fs arbitrary: s)
  case Nil
  then show ?case by simp
next
  case (Cons f fs)
  show ?case
  proof (cases "dispatched ats f")
    case False
    with Cons show ?thesis by (simp add: loop_body_skip)
  next
    case True
    with Cons.prems obtain p where p: "path f = Some p"
      by (auto simp: loop_body_take split: option.splits)
    let ?s1 = "\<lparr>output_files = output_files s @ produce fresh (length (output_files s)) out [f],
               spawned = spawned s @
                 [(the (map_of commands (the (matched_type (file_name f) ats))) @ [p],
                   of_path (create_output_file fresh (length (output_files s)) out
                     (display_name f) ''.txt'' ''filesystem_artifact''))]\<rparr>"
    from True p Cons.prems have "run_loop fresh out ats fs ?s1 = Inr s'"
      by (simp add: loop_body_take)
    from Cons.IH [OF this] True show ?thesis by simp
  qed
qed

lemma run_loop_succeeds_iff:
  "(\<exists>s'. run_loop fresh out ats fs s = Inr s') \<longleftrightarrow>
   (\<forall>f\<in>set fs. dispatched ats f \<longrightarrow> path f \<noteq> None)"
proof (induction fs arbitrary: s)
  case Nil
  then show ?case by simp
next
  case (Cons f fs)
  show ?case
  proof (cases "dispatched ats f")
    case False
    then show ?thesis using Cons.IH [of s] by (simp add: loop_body_skip)
  next
    case True
    show ?thesis
    proof (cases "path f")
      case None
      with True show ?thesis by (auto simp: loop_body_take)
    next
      case (Some p)
      with True show ?thesis using Cons.IH by (simp add: loop_body_take)
    qed
  qed
qed

lemma command_lines_succeeds_iff:
  "(\<exists>ls. command_lines (zip ats outs) = Inr ls) \<longleftrightarrow>
   (\<forall>t\<in>set (take (length outs) ats). map_of commands t \<noteq> None)"
proof (induction ats arbitrary: outs)
  case Nil
  then show ?case by simp
next
  case step: (Cons t ats)
  show ?case
  proof (cases outs)
    case Nil
    then show ?thesis by simp
  next
    case (Cons f fs)
    then show ?thesis using step.IH [of fs]
      by (auto split: option.splits sum.splits)
  qed
qed

lemma filter_as_indices:
  "filter P xs = map ((!) xs) (filter (\<lambda>i. P (xs ! i)) [0..<length xs])"
proof -
  have "filter P xs = filter P (map ((!) xs) [0..<length xs])"
    by (simp add: map_nth)
  also have "\<dots> = map ((!) xs) (filter (P \<circ> (!) xs) [0..<length xs])"
    by (rule filter_map)
  finally show ?thesis by (simp add: comp_def)
qed

lemma run_loop_append:
  "run_loop fresh out ats (xs @ ys) s =
     (case run_loop fresh out ats xs s of
        Inl e \<Rightarrow> Inl e
      | Inr s' \<Rightarrow> run_loop fresh out ats ys s')"
  by (induction xs arbitrary: s) (auto split: sum.splits)

lemma not_dispatched_Nil: "\<not> dispatched [] f"
  by (simp add: dispatched_def matched_type_def)

lemma run_loop_no_dispatch:
  "\<forall>f\<in>set fs. \<not> dispatched ats f \<Longrightarrow> run_loop fresh out ats fs s = Inr s"
  by (induction fs) (auto simp: loop_body_skip)

lemma unmatched_not_dispatched:
  "\<forall>t\<in>set ats. \<not> sublist t (file_name f) \<Longrightarrow> \<not> dispatched ats f"
  by (auto simp: dispatched_def matched_type_def find_None_iff split: option.splits
      dest!: find_Some_iff [THEN iffD1])

subsection \<open>The task function\<close>

lemma command_succeeds_iff:
  "command fresh pr ifs out wid cfg = Inr r \<longleftrightarrow>
   (\<exists>c s ls. cfg = Some c \<and>
      run_loop fresh out (get_artifact_types c)
        (get_input_files pr (case ifs of None \<Rightarrow> [] | Some fs \<Rightarrow> fs)) init_state = Inr s \<and>
      output_files s \<noteq> [] \<and>
      command_lines (zip (get_artifact_types c) (output_files s)) = Inr ls \<and>
      r = create_task_result (output_files s) wid (join ''; '' ls) [])"
  by (auto simp: command_def Let_def split: option.splits sum.splits)

lemma command_lines_error: "command_lines zs = Inl e \<Longrightarrow> \<exists>t. e = KeyError t"
  by (induction zs rule: command_lines.induct) (auto split: option.splits sum.splits)

lemma command_no_artifacts_iff:
  "command fresh pr ifs out wid (Some c) = Inl no_artifacts \<longleftrightarrow>
   (\<exists>s. run_loop fresh out (get_artifact_types c)
        (get_input_files pr (case ifs of None \<Rightarrow> [] | Some fs \<Rightarrow> fs)) init_state = Inr s \<and>
      output_files s = [])"
  by (auto simp: command_def Let_def no_artifacts_def split: sum.splits
      dest: run_loop_error command_lines_error)

lemma produce_fields:
  "o' \<in> set (produce fresh k out fs) \<Longrightarrow>
   of_extension o' = ''.txt'' \<and> of_data_type o' = ''filesystem_artifact''"
  by (induction fs arbitrary: k) (auto simp: create_output_file_def)

lemma produce_display_names:
  "map of_display_name (produce fresh k out fs) = map display_name fs"
  by (induction fs arbitrary: k) (auto simp: create_output_file_def)

lemma command_outputs:
  assumes "command fresh pr ifs out wid (Some c) = Inr r"
  shows "tr_output_files r =
           produce fresh 0 out
             (filter (dispatched (get_artifact_types c))
                (get_input_files pr (case ifs of None \<Rightarrow> [] | Some fs \<Rightarrow> fs)))"
proof -
  from assms obtain s ls where
    loop: "run_loop fresh out (get_artifact_types c)
        (get_input_files pr (case ifs of None \<Rightarrow> [] | Some fs \<Rightarrow> fs)) init_state = Inr s"
    and r: "r = create_task_result (output_files s) wid (join ''; '' ls) []"
    by (auto simp: command_succeeds_iff)
  from run_loop_outputs [OF loop] r show ?thesis
    by (simp add: init_state_def create_task_result_def)
qed

text \<open>The definitions that a run on concrete inputs unfolds.\<close>

lemmas run_simps = command_def get_input_files_def get_artifact_types_def init_state_def
  loop_body_def file_name_def lower_def lower_char_def matched_type_def sublist_code commands_def
  create_output_file_def create_task_result_def name_supply_def Let_def no_artifacts_def

section \<open>The claims\<close>

subsection \<open>C1: first match in the order of the requested types\<close>

text \<open>
  C1, as stated, also says that an empty display name matches nothing. The empty string
  occurs in every string, so a requested list that holds the empty identifier matches
  the empty display name: line 85 returns the empty string, not \<open>None\<close>.
\<close>

theorem matched_type_empty_name_counterexample: "matched_type (lower []) [[]] = Some [] \<and> matched_type (lower []) [[]] \<noteq> None"
  by (simp add: matched_type_def lower_def)

text \<open>
  C1, amended: for every requested list \<open>R\<close> and display name \<open>N\<close> the classification is
  \<open>None\<close> exactly when no element of \<open>R\<close> occurs in the lowercased \<open>N\<close>, and otherwise it
  is the element of \<open>R\<close> at the least index whose identifier occurs in the lowercased \<open>N\<close>
  (so a name holding several identifiers yields the earliest requested one); an empty
  display name matches nothing when \<open>R\<close> holds no empty identifier.
\<close>

theorem matched_type_first_match:
  "(matched_type (lower N) R = None \<longleftrightarrow> (\<forall>t\<in>set R. \<not> sublist t (lower N))) \<and>
   (\<forall>t. matched_type (lower N) R = Some t \<longleftrightarrow>
      (\<exists>i<length R. R ! i = t \<and> sublist t (lower N) \<and> (\<forall>j<i. \<not> sublist (R ! j) (lower N)))) \<and>
   ([] \<notin> set R \<longrightarrow> matched_type (lower []) R = None)"
proof (intro conjI allI impI)
  show "matched_type (lower N) R = None \<longleftrightarrow> (\<forall>t\<in>set R. \<not> sublist t (lower N))"
    by (auto simp: matched_type_def find_None_iff)
next
  fix t
  show "matched_type (lower N) R = Some t \<longleftrightarrow>
      (\<exists>i<length R. R ! i = t \<and> sublist t (lower N) \<and> (\<forall>j<i. \<not> sublist (R ! j) (lower N)))"
    unfolding matched_type_def find_Some_iff by auto
next
  assume "[] \<notin> set R"
  then show "matched_type (lower []) R = None"
    by (auto simp: matched_type_def find_None_iff lower_def)
qed

text \<open>Witness for C1: \<open>MFT_Journal\<close> holds both identifiers and the earlier requested one wins.\<close>

theorem matched_type_first_match_witness:
  "matched_type (lower ''MFT_Journal'') [''journal'', ''mft''] = Some ''journal'' \<and>
   (\<exists>i<length [''journal'', ''mft''].
      [''journal'', ''mft''] ! i = ''journal'' \<and> sublist ''journal'' (lower ''MFT_Journal'') \<and>
      (\<forall>j<i. \<not> sublist ([''journal'', ''mft''] ! j) (lower ''MFT_Journal''))) \<and>
   [] \<notin> set [''journal'', ''mft''] \<and>
   matched_type (lower []) [''journal'', ''mft''] = None"
proof -
  have m: "matched_type (lower ''MFT_Journal'') [''journal'', ''mft''] = Some ''journal''"
    by (simp add: matched_type_def lower_def lower_char_def sublist_code)
  have e: "[] \<notin> set [''journal'', ''mft'']"
    by simp
  from matched_type_first_match [of "''MFT_Journal''" "[''journal'', ''mft'']"] m e
  show ?thesis by blast
qed

subsection \<open>C2: the no-artifacts error\<close>

text \<open>
  The run raises the no-artifacts error exactly when the loop ends with no output file
  (\<open>command_no_artifacts_iff\<close>). C2 adds that the run otherwise returns a task result.
  The run below produces one output file and then fails in line 107: the comprehension
  pairs the output file with the first requested type, \<open>foo\<close>, which is not a key of
  \<open>commands\<close>, although the guard of line 87 admits requested types that are not keys.
\<close>

theorem command_key_error_after_output:
  "run_loop name_supply ''/out'' [''foo'', ''mft'']
     [\<lparr>display_name = Some ''MFT_C.bin'', path = Some ''/in/MFT_C.bin''\<rparr>] init_state =
     Inr \<lparr>output_files =
            [\<lparr>of_path = ''/out/out0.txt'', of_display_name = Some ''MFT_C.bin'',
              of_extension = ''.txt'', of_data_type = ''filesystem_artifact''\<rparr>],
          spawned = [([''fls'', ''-r'', ''/in/MFT_C.bin''], ''/out/out0.txt'')]\<rparr> \<and>
   command name_supply None
     (Some [\<lparr>display_name = Some ''MFT_C.bin'', path = Some ''/in/MFT_C.bin''\<rparr>])
     ''/out'' (Some ''wf1'') (Some [''artifact_types'' \<mapsto> [''foo'', ''mft'']]) =
     Inl (KeyError ''foo'')"
  by (simp add: run_simps)

subsection \<open>C3: the command summary\<close>

text \<open>
  C3 says that the summary holds, for each output file, the command line of the type that
  matched it with the path of the input file. Line 107 pairs the \<open>i\<close>-th output file with
  the \<open>i\<close>-th requested type and appends the path of the output file. For the display name
  \<open>MFT_C.bin\<close> the process started is \<open>fls -r /in/MFT_C.bin\<close>, while the summary is
  \<open>icat /out/out0.txt\<close> for the requested types \<open>journal, mft\<close>, and
  \<open>fls -r /out/out0.txt\<close> for the requested type \<open>mft\<close> alone.
\<close>

theorem command_summary_scenario:
  "run_loop name_supply ''/out'' [''journal'', ''mft'']
     [\<lparr>display_name = Some ''MFT_C.bin'', path = Some ''/in/MFT_C.bin''\<rparr>] init_state =
     Inr \<lparr>output_files =
            [\<lparr>of_path = ''/out/out0.txt'', of_display_name = Some ''MFT_C.bin'',
              of_extension = ''.txt'', of_data_type = ''filesystem_artifact''\<rparr>],
          spawned = [([''fls'', ''-r'', ''/in/MFT_C.bin''], ''/out/out0.txt'')]\<rparr> \<and>
   command name_supply None
     (Some [\<lparr>display_name = Some ''MFT_C.bin'', path = Some ''/in/MFT_C.bin''\<rparr>])
     ''/out'' (Some ''wf1'') (Some [''artifact_types'' \<mapsto> [''journal'', ''mft'']]) =
     Inr \<lparr>tr_output_files =
            [\<lparr>of_path = ''/out/out0.txt'', of_display_name = Some ''MFT_C.bin'',
              of_extension = ''.txt'', of_data_type = ''filesystem_artifact''\<rparr>],
          tr_workflow_id = Some ''wf1'',
          tr_command = ''icat /out/out0.txt'',
          tr_meta = []\<rparr> \<and>
   command name_supply None
     (Some [\<lparr>display_name = Some ''MFT_C.bin'', path = Some ''/in/MFT_C.bin''\<rparr>])
     ''/out'' (Some ''wf1'') (Some [''artifact_types'' \<mapsto> [''mft'']]) =
     Inr \<lparr>tr_output_files =
            [\<lparr>of_path = ''/out/out0.txt'', of_display_name = Some ''MFT_C.bin'',
              of_extension = ''.txt'', of_data_type = ''filesystem_artifact''\<rparr>],
          tr_workflow_id = Some ''wf1'',
          tr_command = ''fls -r /out/out0.txt'',
          tr_meta = []\<rparr>"
  by (simp add: run_simps)

subsection \<open>C4: the command that is started\<close>

text \<open>
  C4: for a file matched to one of the five supported types, the loop body starts the
  fixed template with the path of the input file appended, \<open>fls -r <path>\<close> for \<open>mft\<close>
  and \<open>icat <path>\<close> for the other four, with the standard output sent to the output file
  just created.
\<close>

theorem loop_body_starts_template_with_path:
  assumes "matched_type (file_name f) ats = Some t"
    and "t \<in> {''mft'', ''journal'', ''boot_log'', ''logfile'', ''io3''}"
    and "path f = Some p"
  shows "\<exists>s'. loop_body fresh out ats f s = Inr s' \<and>
           spawned s' = spawned s @
             [(if t = ''mft'' then [''fls'', ''-r'', p] else [''icat'', p],
               of_path (last (output_files s')))]"
  using assms by (auto simp: loop_body_def commands_def Let_def)

text \<open>Witness for C4: a log file among the requested types \<open>mft, logfile\<close>.\<close>

theorem loop_body_starts_template_with_path_witness:
  "matched_type (file_name \<lparr>display_name = Some ''$LogFile.bin'', path = Some ''/in/LogFile.bin''\<rparr>)
     [''mft'', ''logfile''] = Some ''logfile'' \<and>
   ''logfile'' \<in> {''mft'', ''journal'', ''boot_log'', ''logfile'', ''io3''} \<and>
   (\<exists>s'. loop_body name_supply ''/out'' [''mft'', ''logfile'']
           \<lparr>display_name = Some ''$LogFile.bin'', path = Some ''/in/LogFile.bin''\<rparr> init_state = Inr s' \<and>
         spawned s' = spawned init_state @
           [([''icat'', ''/in/LogFile.bin''], of_path (last (output_files s')))])"
proof -
  have m: "matched_type (file_name \<lparr>display_name = Some ''$LogFile.bin'', path = Some ''/in/LogFile.bin''\<rparr>)
     [''mft'', ''logfile''] = Some ''logfile''"
    by (simp add: run_simps)
  have r: "''logfile'' \<in> {''mft'', ''journal'', ''boot_log'', ''logfile'', ''io3''}"
    by simp
  have p: "path \<lparr>display_name = Some ''$LogFile.bin'', path = Some ''/in/LogFile.bin''\<rparr> = Some ''/in/LogFile.bin''"
    by simp
  from loop_body_starts_template_with_path [OF m r p, of name_supply "''/out''" init_state] m r
  show ?thesis by simp
qed

subsection \<open>C5: a matched type that is not registered\<close>

text \<open>
  C5 says that the lookup of an identifier that is not registered fails rather than being
  skipped. The guard of line 87 tests the membership first: the file \<open>foo.bin\<close> matches
  the requested type \<open>foo\<close>, which is not a key of \<open>commands\<close>, and the loop body returns
  with the state unchanged and without an error for the file.
\<close>

theorem unregistered_type_skipped_counterexample:
  "matched_type (file_name \<lparr>display_name = Some ''foo.bin'', path = Some ''/in/foo.bin''\<rparr>)
     [''foo''] = Some ''foo'' \<and>
   map_of commands ''foo'' = None \<and>
   loop_body name_supply ''/out'' [''foo'']
     \<lparr>display_name = Some ''foo.bin'', path = Some ''/in/foo.bin''\<rparr> init_state = Inr init_state \<and>
   command name_supply None
     (Some [\<lparr>display_name = Some ''foo.bin'', path = Some ''/in/foo.bin''\<rparr>])
     ''/out'' (Some ''wf1'') (Some [''artifact_types'' \<mapsto> [''foo'']]) = Inl no_artifacts"
  by (simp add: run_simps)

text \<open>
  C5, amended: a file whose matched type is not a key of \<open>commands\<close> is skipped by the
  guard of line 87: the loop body leaves the state unchanged, raises nothing, and the
  loop goes on with the remaining files.
\<close>

theorem loop_body_unregistered_skipped:
  assumes "matched_type (file_name f) ats = Some t" and "map_of commands t = None"
  shows "loop_body fresh out ats f s = Inr s \<and>
         run_loop fresh out ats (f # fs) s = run_loop fresh out ats fs s"
  using assms by (simp add: loop_body_def)

text \<open>Witness for C5.\<close>

theorem loop_body_unregistered_skipped_witness:
  "matched_type (file_name \<lparr>display_name = Some ''foo.bin'', path = Some ''/in/foo.bin''\<rparr>)
     [''foo'', ''mft''] = Some ''foo'' \<and>
   map_of commands ''foo'' = None \<and>
   loop_body name_supply ''/out'' [''foo'', ''mft'']
     \<lparr>display_name = Some ''foo.bin'', path = Some ''/in/foo.bin''\<rparr> init_state = Inr init_state \<and>
   run_loop name_supply ''/out'' [''foo'', ''mft'']
     [\<lparr>display_name = Some ''foo.bin'', path = Some ''/in/foo.bin''\<rparr>,
      \<lparr>display_name = Some ''MFT'', path = Some ''/in/MFT''\<rparr>] init_state =
   run_loop name_supply ''/out'' [''foo'', ''mft'']
     [\<lparr>display_name = Some ''MFT'', path = Some ''/in/MFT''\<rparr>] init_state"
proof -
  have m: "matched_type (file_name \<lparr>display_name = Some ''foo.bin'', path = Some ''/in/foo.bin''\<rparr>)
     [''foo'', ''mft''] = Some ''foo''"
    by (simp add: run_simps)
  have c: "map_of commands ''foo'' = None"
    by (simp add: commands_def)
  from loop_body_unregistered_skipped [OF m c, of name_supply "''/out''" init_state
      "[\<lparr>display_name = Some ''MFT'', path = Some ''/in/MFT''\<rparr>]"] m c
  show ?thesis by simp
qed

subsection \<open>C6: the fields of the output files and of the task result\<close>

text \<open>
  C6: in a run that returns a task result, every output file has the extension \<open>.txt\<close>
  and the data type \<open>filesystem_artifact\<close>; the display names of the output files are,
  in order, the display names of the input files the loop acted on; the result carries
  the output files of the loop's final state, the workflow identifier it was given, and
  empty metadata.
\<close>

theorem command_result_fields:
  assumes "command fresh pr ifs out wid (Some c) = Inr r"
  shows "(\<forall>f\<in>set (tr_output_files r).
            of_extension f = ''.txt'' \<and> of_data_type f = ''filesystem_artifact'') \<and>
         map of_display_name (tr_output_files r) =
           map display_name
             (filter (dispatched (get_artifact_types c))
                (get_input_files pr (case ifs of None \<Rightarrow> [] | Some fs \<Rightarrow> fs))) \<and>
         (\<exists>s. run_loop fresh out (get_artifact_types c)
                (get_input_files pr (case ifs of None \<Rightarrow> [] | Some fs \<Rightarrow> fs)) init_state = Inr s \<and>
              tr_output_files r = output_files s) \<and>
         tr_workflow_id r = wid \<and> tr_meta r = []"
proof -
  note outs = command_outputs [OF assms]
  from assms obtain s ls where
    loop: "run_loop fresh out (get_artifact_types c)
        (get_input_files pr (case ifs of None \<Rightarrow> [] | Some fs \<Rightarrow> fs)) init_state = Inr s"
    and r: "r = create_task_result (output_files s) wid (join ''; '' ls) []"
    by (auto simp: command_succeeds_iff)
  have "\<forall>f\<in>set (tr_output_files r).
          of_extension f = ''.txt'' \<and> of_data_type f = ''filesystem_artifact''"
    unfolding outs by (blast dest: produce_fields)
  moreover have "map of_display_name (tr_output_files r) =
           map display_name
             (filter (dispatched (get_artifact_types c))
                (get_input_files pr (case ifs of None \<Rightarrow> [] | Some fs \<Rightarrow> fs)))"
    unfolding outs by (rule produce_display_names)
  moreover from loop r have "\<exists>s. run_loop fresh out (get_artifact_types c)
                (get_input_files pr (case ifs of None \<Rightarrow> [] | Some fs \<Rightarrow> fs)) init_state = Inr s \<and>
              tr_output_files r = output_files s"
    by (simp add: create_task_result_def)
  moreover from r have "tr_workflow_id r = wid \<and> tr_meta r = []"
    by (simp add: create_task_result_def)
  ultimately show ?thesis by blast
qed

text \<open>Witness for C6: two inputs, of which the second matches no requested type.\<close>

theorem command_result_fields_witness:
  "command name_supply None
     (Some [\<lparr>display_name = Some ''$LogFile.bin'', path = Some ''/in/LogFile.bin''\<rparr>,
            \<lparr>display_name = Some ''random.txt'', path = Some ''/in/random.txt''\<rparr>])
     ''/out'' (Some ''wf1'') (Some [''artifact_types'' \<mapsto> [''logfile'']]) =
     Inr \<lparr>tr_output_files =
            [\<lparr>of_path = ''/out/out0.txt'', of_display_name = Some ''$LogFile.bin'',
              of_extension = ''.txt'', of_data_type = ''filesystem_artifact''\<rparr>],
          tr_workflow_id = Some ''wf1'',
          tr_command = ''icat /out/out0.txt'',
          tr_meta = []\<rparr> \<and>
   map display_name
     (filter (dispatched (get_artifact_types [''artifact_types'' \<mapsto> [''logfile'']]))
        (get_input_files None
           (case Some [\<lparr>display_name = Some ''$LogFile.bin'', path = Some ''/in/LogFile.bin''\<rparr>,
                       \<lparr>display_name = Some ''random.txt'', path = Some ''/in/random.txt''\<rparr>] of
              None \<Rightarrow> [] | Some fs \<Rightarrow> fs))) =
     [Some ''$LogFile.bin'']"
proof -
  have h: "command name_supply None
     (Some [\<lparr>display_name = Some ''$LogFile.bin'', path = Some ''/in/LogFile.bin''\<rparr>,
            \<lparr>display_name = Some ''random.txt'', path = Some ''/in/random.txt''\<rparr>])
     ''/out'' (Some ''wf1'') (Some [''artifact_types'' \<mapsto> [''logfile'']]) =
     Inr \<lparr>tr_output_files =
            [\<lparr>of_path = ''/out/out0.txt'', of_display_name = Some ''$LogFile.bin'',
              of_extension = ''.txt'', of_data_type = ''filesystem_artifact''\<rparr>],
          tr_workflow_id = Some ''wf1'',
          tr_command = ''icat /out/out0.txt'',
          tr_meta = []\<rparr>"
    by (simp add: run_simps)
  from command_result_fields [OF h] h show ?thesis by simp
qed

subsection \<open>C7: a file that matches no requested type\<close>

text \<open>
  C7: for an input file whose lowercased display name holds no requested identifier, the
  loop body returns the state unchanged (no output file appended, no process started,
  no error), and the loop over a list that holds the file gives the same outcome as the
  loop over the list without it.
\<close>

theorem unmatched_file_skipped:
  assumes "\<forall>t\<in>set ats. \<not> sublist t (file_name f)"
  shows "loop_body fresh out ats f s = Inr s \<and>
         run_loop fresh out ats (pre @ f # post) s = run_loop fresh out ats (pre @ post) s"
proof -
  from assms have nd: "\<not> dispatched ats f" by (rule unmatched_not_dispatched)
  then have b: "loop_body fresh out ats f s' = Inr s'" for s'
    by (rule loop_body_skip)
  then have "run_loop fresh out ats (f # post) s' = run_loop fresh out ats post s'" for s'
    by simp
  then have "run_loop fresh out ats (pre @ f # post) s = run_loop fresh out ats (pre @ post) s"
    by (simp only: run_loop_append)
  with b show ?thesis by simp
qed

text \<open>Witness for C7: \<open>random.txt\<close> between two files that match.\<close>

theorem unmatched_file_skipped_witness:
  "\<not> sublist ''mft''
       (file_name \<lparr>display_name = Some ''random.txt'', path = Some ''/in/random.txt''\<rparr>) \<and>
   \<not> sublist ''journal''
       (file_name \<lparr>display_name = Some ''random.txt'', path = Some ''/in/random.txt''\<rparr>) \<and>
   loop_body name_supply ''/out'' [''mft'', ''journal'']
     \<lparr>display_name = Some ''random.txt'', path = Some ''/in/random.txt''\<rparr> init_state = Inr init_state \<and>
   run_loop name_supply ''/out'' [''mft'', ''journal'']
     ([\<lparr>display_name = Some ''MFT'', path = Some ''/in/MFT''\<rparr>] @
      \<lparr>display_name = Some ''random.txt'', path = Some ''/in/random.txt''\<rparr> #
      [\<lparr>display_name = Some ''UsnJrnl_journal'', path = Some ''/in/J''\<rparr>]) init_state =
   run_loop name_supply ''/out'' [''mft'', ''journal'']
     ([\<lparr>display_name = Some ''MFT'', path = Some ''/in/MFT''\<rparr>] @
      [\<lparr>display_name = Some ''UsnJrnl_journal'', path = Some ''/in/J''\<rparr>]) init_state"
proof -
  have h: "\<forall>t\<in>set [''mft'', ''journal''].
      \<not> sublist t (file_name \<lparr>display_name = Some ''random.txt'', path = Some ''/in/random.txt''\<rparr>)"
    by (simp add: file_name_def lower_def lower_char_def sublist_code)
  from unmatched_file_skipped [OF h, of name_supply "''/out''" init_state
      "[\<lparr>display_name = Some ''MFT'', path = Some ''/in/MFT''\<rparr>]"
      "[\<lparr>display_name = Some ''UsnJrnl_journal'', path = Some ''/in/J''\<rparr>]"]
  have r: "loop_body name_supply ''/out'' [''mft'', ''journal'']
     \<lparr>display_name = Some ''random.txt'', path = Some ''/in/random.txt''\<rparr> init_state = Inr init_state \<and>
   run_loop name_supply ''/out'' [''mft'', ''journal'']
     ([\<lparr>display_name = Some ''MFT'', path = Some ''/in/MFT''\<rparr>] @
      \<lparr>display_name = Some ''random.txt'', path = Some ''/in/random.txt''\<rparr> #
      [\<lparr>display_name = Some ''UsnJrnl_journal'', path = Some ''/in/J''\<rparr>]) init_state =
   run_loop name_supply ''/out'' [''mft'', ''journal'']
     ([\<lparr>display_name = Some ''MFT'', path = Some ''/in/MFT''\<rparr>] @
      [\<lparr>display_name = Some ''UsnJrnl_journal'', path = Some ''/in/J''\<rparr>]) init_state" .
  from h have "\<not> sublist ''mft''
       (file_name \<lparr>display_name = Some ''random.txt'', path = Some ''/in/random.txt''\<rparr>)"
    and "\<not> sublist ''journal''
       (file_name \<lparr>display_name = Some ''random.txt'', path = Some ''/in/random.txt''\<rparr>)"
    by simp_all
  with r show ?thesis by blast
qed

subsection \<open>C8: two runs into different output directories\<close>

text \<open>
  C8: when a run into the directory \<open>d1\<close> returns a task result, the run over the same
  inputs and requested types into any directory \<open>d2\<close> returns one too; the two lists of
  output files have the same length, and corresponding entries have the same display
  name, data type and extension, and paths with the same base name under \<open>d1\<close> and \<open>d2\<close>.
  The base names come from the model of \<open>create_output_file\<close>, which draws them from the
  same supply in both runs.
\<close>

theorem command_output_directory_only:
  assumes "command fresh pr ifs d1 wid cfg = Inr r1"
  shows "\<exists>r2. command fresh pr ifs d2 wid cfg = Inr r2 \<and>
           length (tr_output_files r2) = length (tr_output_files r1) \<and>
           (\<forall>i<length (tr_output_files r1).
              of_display_name (tr_output_files r2 ! i) = of_display_name (tr_output_files r1 ! i) \<and>
              of_data_type (tr_output_files r2 ! i) = of_data_type (tr_output_files r1 ! i) \<and>
              of_extension (tr_output_files r2 ! i) = of_extension (tr_output_files r1 ! i) \<and>
              (\<exists>base. of_path (tr_output_files r1 ! i) = d1 @ ''/'' @ base \<and>
                      of_path (tr_output_files r2 ! i) = d2 @ ''/'' @ base))"
proof -
  let ?ins = "get_input_files pr (case ifs of None \<Rightarrow> [] | Some fs \<Rightarrow> fs)"
  from assms obtain c s1 ls1 where
    cfg: "cfg = Some c"
    and loop1: "run_loop fresh d1 (get_artifact_types c) ?ins init_state = Inr s1"
    and ne1: "output_files s1 \<noteq> []"
    and cl1: "command_lines (zip (get_artifact_types c) (output_files s1)) = Inr ls1"
    by (auto simp: command_succeeds_iff)
  let ?sel = "filter (dispatched (get_artifact_types c)) ?ins"
  from loop1 have "\<exists>s'. run_loop fresh d1 (get_artifact_types c) ?ins init_state = Inr s'"
    by blast
  then have "\<forall>f\<in>set ?ins. dispatched (get_artifact_types c) f \<longrightarrow> path f \<noteq> None"
    by (simp only: run_loop_succeeds_iff)
  then have "\<exists>s'. run_loop fresh d2 (get_artifact_types c) ?ins init_state = Inr s'"
    by (simp only: run_loop_succeeds_iff)
  then obtain s2 where loop2: "run_loop fresh d2 (get_artifact_types c) ?ins init_state = Inr s2"
    by blast
  have o1: "output_files s1 = produce fresh 0 d1 ?sel"
    using run_loop_outputs [OF loop1] by (simp add: init_state_def)
  have o2: "output_files s2 = produce fresh 0 d2 ?sel"
    using run_loop_outputs [OF loop2] by (simp add: init_state_def)
  have len: "length (output_files s2) = length (output_files s1)"
    by (simp add: o1 o2)
  with ne1 have ne2: "output_files s2 \<noteq> []" by auto
  from cl1 have "\<exists>ls. command_lines (zip (get_artifact_types c) (output_files s1)) = Inr ls"
    by blast
  then have "\<exists>ls. command_lines (zip (get_artifact_types c) (output_files s2)) = Inr ls"
    by (simp only: command_lines_succeeds_iff len)
  then obtain ls2 where
    cl2: "command_lines (zip (get_artifact_types c) (output_files s2)) = Inr ls2"
    by blast
  let ?r2 = "create_task_result (output_files s2) wid (join ''; '' ls2) []"
  from cfg loop2 ne2 cl2 have run2: "command fresh pr ifs d2 wid cfg = Inr ?r2"
    by (auto simp: command_succeeds_iff)
  from assms cfg loop1 cl1 have r1: "tr_output_files r1 = produce fresh 0 d1 ?sel"
    by (auto simp: command_succeeds_iff create_task_result_def o1)
  have r2: "tr_output_files ?r2 = produce fresh 0 d2 ?sel"
    by (simp add: create_task_result_def o2)
  have "length (tr_output_files ?r2) = length (tr_output_files r1)"
    by (simp add: r1 r2)
  moreover have "\<forall>i<length (tr_output_files r1).
      of_display_name (tr_output_files ?r2 ! i) = of_display_name (tr_output_files r1 ! i) \<and>
      of_data_type (tr_output_files ?r2 ! i) = of_data_type (tr_output_files r1 ! i) \<and>
      of_extension (tr_output_files ?r2 ! i) = of_extension (tr_output_files r1 ! i) \<and>
      (\<exists>base. of_path (tr_output_files r1 ! i) = d1 @ ''/'' @ base \<and>
              of_path (tr_output_files ?r2 ! i) = d2 @ ''/'' @ base)"
    unfolding r1 r2 by (simp add: nth_produce create_output_file_def)
  ultimately show ?thesis using run2 by blast
qed

text \<open>Witness for C8: the directories \<open>/out1\<close> and \<open>/out2\<close>.\<close>

theorem command_output_directory_only_witness:
  "\<exists>r1. command name_supply None
          (Some [\<lparr>display_name = Some ''MFT_C.bin'', path = Some ''/in/MFT_C.bin''\<rparr>])
          ''/out1'' (Some ''wf1'') (Some [''artifact_types'' \<mapsto> [''mft'']]) = Inr r1 \<and>
     (\<exists>r2. command name_supply None
           (Some [\<lparr>display_name = Some ''MFT_C.bin'', path = Some ''/in/MFT_C.bin''\<rparr>])
           ''/out2'' (Some ''wf1'') (Some [''artifact_types'' \<mapsto> [''mft'']]) = Inr r2 \<and>
         length (tr_output_files r2) = length (tr_output_files r1) \<and>
         (\<forall>i<length (tr_output_files r1).
            of_display_name (tr_output_files r2 ! i) = of_display_name (tr_output_files r1 ! i) \<and>
            of_data_type (tr_output_files r2 ! i) = of_data_type (tr_output_files r1 ! i) \<and>
            of_extension (tr_output_files r2 ! i) = of_extension (tr_output_files r1 ! i) \<and>
            (\<exists>base. of_path (tr_output_files r1 ! i) = ''/out1'' @ ''/'' @ base \<and>
                    of_path (tr_output_files r2 ! i) = ''/out2'' @ ''/'' @ base)))"
proof -
  have h: "command name_supply None
     (Some [\<lparr>display_name = Some ''MFT_C.bin'', path = Some ''/in/MFT_C.bin''\<rparr>])
     ''/out1'' (Some ''wf1'') (Some [''artifact_types'' \<mapsto> [''mft'']]) =
     Inr \<lparr>tr_output_files =
            [\<lparr>of_path = ''/out1/out0.txt'', of_display_name = Some ''MFT_C.bin'',
              of_extension = ''.txt'', of_data_type = ''filesystem_artifact''\<rparr>],
          tr_workflow_id = Some ''wf1'',
          tr_command = ''fls -r /out1/out0.txt'',
          tr_meta = []\<rparr>"
    by (simp add: run_simps)
  show ?thesis
    by (rule exI, rule conjI, rule h, rule command_output_directory_only [OF h])
qed

subsection \<open>C9: no requested types\<close>

text \<open>
  C9: when the key \<open>artifact_types\<close> is absent from the task configuration, or holds the
  empty list, the loop over any list of input files ends in the initial state, with no
  output file and no process started, and the run raises the no-artifacts error.
\<close>

theorem command_no_requested_types:
  assumes "cfg ''artifact_types'' = None \<or> cfg ''artifact_types'' = Some []"
  shows "command fresh pr ifs out wid (Some cfg) = Inl no_artifacts \<and>
         run_loop fresh out (get_artifact_types cfg)
           (get_input_files pr (case ifs of None \<Rightarrow> [] | Some fs \<Rightarrow> fs)) init_state =
           Inr init_state"
proof -
  from assms have ats: "get_artifact_types cfg = []"
    by (auto simp: get_artifact_types_def)
  have loop: "run_loop fresh out [] fs init_state = Inr init_state" for fs
    by (rule run_loop_no_dispatch) (simp add: not_dispatched_Nil)
  have "output_files init_state = []" by (simp add: init_state_def)
  with loop ats show ?thesis
    by (auto simp: command_no_artifacts_iff)
qed

text \<open>Witness for C9: an empty configuration and one input file.\<close>

theorem command_no_requested_types_witness:
  "(Map.empty ''artifact_types'' = None \<or> Map.empty ''artifact_types'' = Some ([] :: string list)) \<and>
   command name_supply None
     (Some [\<lparr>display_name = Some ''MFT_C.bin'', path = Some ''/in/MFT_C.bin''\<rparr>])
     ''/out'' (Some ''wf1'') (Some Map.empty) = Inl no_artifacts \<and>
   run_loop name_supply ''/out'' (get_artifact_types Map.empty)
     (get_input_files None
        (case Some [\<lparr>display_name = Some ''MFT_C.bin'', path = Some ''/in/MFT_C.bin''\<rparr>] of
           None \<Rightarrow> [] | Some fs \<Rightarrow> fs)) init_state = Inr init_state"
proof -
  have h: "Map.empty ''artifact_types'' = None \<or>
           Map.empty ''artifact_types'' = Some ([] :: string list)"
    by simp
  from command_no_requested_types [OF h, of name_supply None
      "Some [\<lparr>display_name = Some ''MFT_C.bin'', path = Some ''/in/MFT_C.bin''\<rparr>]"
      "''/out''" "Some ''wf1''"] h
  show ?thesis by blast
qed

subsection \<open>C10: the order of the output files\<close>

text \<open>
  C10: in a run that returns a task result there is a strictly increasing list \<open>js\<close> of
  positions of the input list, namely the positions of the files the loop acts on, such
  that the \<open>i\<close>-th output file is the one created for the input file at position
  \<open>js ! i\<close>: the output files follow the order of their input files, and an input file
  gives at most one output file.
\<close>

theorem command_outputs_in_input_order:
  assumes "command fresh pr ifs out wid (Some c) = Inr r"
  shows "\<exists>js. sorted_wrt (<) js \<and>
           set js = {j. j < length (get_input_files pr (case ifs of None \<Rightarrow> [] | Some fs \<Rightarrow> fs)) \<and>
                        dispatched (get_artifact_types c)
                          (get_input_files pr (case ifs of None \<Rightarrow> [] | Some fs \<Rightarrow> fs) ! j)} \<and>
           length (tr_output_files r) = length js \<and>
           (\<forall>i<length js.
              tr_output_files r ! i =
                create_output_file fresh i out
                  (display_name
                     (get_input_files pr (case ifs of None \<Rightarrow> [] | Some fs \<Rightarrow> fs) ! (js ! i)))
                  ''.txt'' ''filesystem_artifact'')"
proof -
  let ?ins = "get_input_files pr (case ifs of None \<Rightarrow> [] | Some fs \<Rightarrow> fs)"
  let ?P = "dispatched (get_artifact_types c)"
  let ?js = "filter (\<lambda>i. ?P (?ins ! i)) [0..<length ?ins]"
  have sel: "filter ?P ?ins = map ((!) ?ins) ?js"
    by (rule filter_as_indices)
  have outs: "tr_output_files r = produce fresh 0 out (map ((!) ?ins) ?js)"
    using command_outputs [OF assms] sel by simp
  have "sorted_wrt (<) ?js"
    by (rule sorted_wrt_filter) (rule sorted_wrt_upt)
  moreover have "set ?js = {j. j < length ?ins \<and> ?P (?ins ! j)}"
    by auto
  moreover have "length (tr_output_files r) = length ?js"
    by (simp add: outs)
  moreover have "\<forall>i<length ?js.
      tr_output_files r ! i =
        create_output_file fresh i out (display_name (?ins ! (?js ! i)))
          ''.txt'' ''filesystem_artifact''"
    by (simp add: outs nth_produce)
  ultimately show ?thesis by blast
qed

text \<open>Witness for C10: three inputs, of which the first and the third match.\<close>

theorem command_outputs_in_input_order_witness:
  "\<exists>r. command name_supply None
          (Some [\<lparr>display_name = Some ''MFT'', path = Some ''/in/MFT''\<rparr>,
                 \<lparr>display_name = Some ''random.txt'', path = Some ''/in/random.txt''\<rparr>,
                 \<lparr>display_name = Some ''UsnJrnl_journal'', path = Some ''/in/J''\<rparr>])
          ''/out'' (Some ''wf1'') (Some [''artifact_types'' \<mapsto> [''mft'', ''journal'']]) = Inr r \<and>
     (\<exists>js. sorted_wrt (<) js \<and>
        set js =
          {j. j < length (get_input_files None
                   (case Some [\<lparr>display_name = Some ''MFT'', path = Some ''/in/MFT''\<rparr>,
                       \<lparr>display_name = Some ''random.txt'', path = Some ''/in/random.txt''\<rparr>,
                       \<lparr>display_name = Some ''UsnJrnl_journal'', path = Some ''/in/J''\<rparr>] of
                      None \<Rightarrow> [] | Some fs \<Rightarrow> fs)) \<and>
              dispatched (get_artifact_types [''artifact_types'' \<mapsto> [''mft'', ''journal'']])
                (get_input_files None
                   (case Some [\<lparr>display_name = Some ''MFT'', path = Some ''/in/MFT''\<rparr>,
                       \<lparr>display_name = Some ''random.txt'', path = Some ''/in/random.txt''\<rparr>,
                       \<lparr>display_name = Some ''UsnJrnl_journal'', path = Some ''/in/J''\<rparr>] of
                      None \<Rightarrow> [] | Some fs \<Rightarrow> fs) ! j)} \<and>
        length (tr_output_files r) = length js \<and>
        (\<forall>i<length js.
           tr_output_files r ! i =
             create_output_file name_supply i ''/out''
               (display_name
                  (get_input_files None
                     (case Some [\<lparr>display_name = Some ''MFT'', path = Some ''/in/MFT''\<rparr>,
                         \<lparr>display_name = Some ''random.txt'', path = Some ''/in/random.txt''\<rparr>,
                         \<lparr>display_name = Some ''UsnJrnl_journal'', path = Some ''/in/J''\<rparr>] of
                        None \<Rightarrow> [] | Some fs \<Rightarrow> fs) ! (js ! i)))
               ''.txt'' ''filesystem_artifact''))"
proof -
  have h: "command name_supply None
     (Some [\<lparr>display_name = Some ''MFT'', path = Some ''/in/MFT''\<rparr>,
            \<lparr>display_name = Some ''random.txt'', path = Some ''/in/random.txt''\<rparr>,
            \<lparr>display_name = Some ''UsnJrnl_journal'', path = Some ''/in/J''\<rparr>])
     ''/out'' (Some ''wf1'') (Some [''artifact_types'' \<mapsto> [''mft'', ''journal'']]) =
     Inr \<lparr>tr_output_files =
            [\<lparr>of_path = ''/out/out0.txt'', of_display_name = Some ''MFT'',
              of_extension = ''.txt'', of_data_type = ''filesystem_artifact''\<rparr>,
             \<lparr>of_path = ''/out/out00.txt'', of_display_name = Some ''UsnJrnl_journal'',
              of_extension = ''.txt'', of_data_type = ''filesystem_artifact''\<rparr>],
          tr_workflow_id = Some ''wf1'',
          tr_command = ''fls -r /out/out0.txt; icat /out/out00.txt'',
          tr_meta = []\<rparr>"
    by (simp add: run_simps)
  show ?thesis
    by (rule exI, rule conjI, rule h, rule command_outputs_in_input_order [OF h])
qed

end
